theory Spec2Isabelle
  imports Main
begin

section \<open>Dual-token authentication middleware\<close>

text \<open>
  A shallow embedding of \<^verbatim>\<open>src/middleware/auth.ts\<close> (compiled to
  \<^verbatim>\<open>lib/middleware/auth.js\<close>) and of the part of \<^verbatim>\<open>src/models/User.ts\<close>
  it calls. The three collaborators (\<^verbatim>\<open>jwt.verify\<close>, \<^verbatim>\<open>auth.verifyIdToken\<close> and
  the mongoose \<^verbatim>\<open>User\<close> model) are made explicit: the two verifiers are functions of
  the environment, the collection is a list of documents, and every call to a collaborator
  is appended to a log, so that "never invokes" is a statement about that log.
\<close>

subsection \<open>JavaScript string primitives\<close>

text \<open>\<^verbatim>\<open>String.prototype.startsWith\<close>.\<close>

fun startsWith :: "string \<Rightarrow> string \<Rightarrow> bool" where
  "startsWith s [] = True"
| "startsWith [] (p # ps) = False"
| "startsWith (c # cs) (p # ps) = (c = p \<and> startsWith cs ps)"

text \<open>\<^verbatim>\<open>String.prototype.includes\<close>.\<close>

fun includes_str :: "string \<Rightarrow> string \<Rightarrow> bool" where
  "includes_str [] sub = (sub = [])"
| "includes_str (c # cs) sub = (startsWith (c # cs) sub \<or> includes_str cs sub)"

text \<open>
  A \<^typ>\<open>char\<close> is a byte, and a string is ASCII when every byte is below 128.
  \<open>toLowerCase\<close> lower-cases the letters A to Z and leaves every other byte alone: on an
  ASCII string it is \<^verbatim>\<open>String.prototype.toLowerCase\<close>. What JavaScript does to a string
  with other characters is not defined here; where that matters (the schema's setters
  below) it is a parameter of the environment.
\<close>

definition isASCII :: "string \<Rightarrow> bool" where
  "isASCII s = list_all (\<lambda>c. (of_char c :: nat) < 128) s"

definition toLowerChar :: "char \<Rightarrow> char" where
  "toLowerChar c =
     (let n = (of_char c :: nat) in if 65 \<le> n \<and> n \<le> 90 then char_of (n + 32) else c)"

definition toLowerCase :: "string \<Rightarrow> string" where
  "toLowerCase s = map toLowerChar s"

text \<open>
  \<^verbatim>\<open>String.prototype.split(sep)\<close>: the string is cut at every occurrence of the
  separator, found from left to right without overlap; the pieces are kept, also the empty
  ones. With the empty separator JavaScript returns the characters one by one.
\<close>

function split_go :: "string \<Rightarrow> string \<Rightarrow> string \<Rightarrow> string list" where
  "split_go sep cur [] = [rev cur]"
| "split_go sep cur (c # cs) =
     (if sep \<noteq> [] \<and> startsWith (c # cs) sep
      then rev cur # split_go sep [] (drop (length sep) (c # cs))
      else split_go sep (c # cur) cs)"
  by pat_completeness auto
termination
  by (relation "measure (\<lambda>(sep, cur, s). length s)") (auto simp: neq_Nil_conv)

definition split_str :: "string \<Rightarrow> string \<Rightarrow> string list" where
  "split_str s sep = (if sep = [] then map (\<lambda>c. [c]) s else split_go sep [] s)"

text \<open>Reading an array element: out of range JavaScript gives \<^verbatim>\<open>undefined\<close>.\<close>

definition nth_opt :: "'a list \<Rightarrow> nat \<Rightarrow> 'a option" where
  "nth_opt xs i = (if i < length xs then Some (xs ! i) else None)"

text \<open>\<open>trim\<close> strips the six ASCII white-space characters from both ends: on an ASCII
  string it is \<^verbatim>\<open>String.prototype.trim\<close> (which strips further Unicode white space
  too).\<close>

definition isSpace :: "char \<Rightarrow> bool" where
  "isSpace c = (c = CHR '' '' \<or> c = CHR 0x09 \<or> c = CHR 0x0A \<or> c = CHR 0x0B
                \<or> c = CHR 0x0C \<or> c = CHR 0x0D)"

definition trim :: "string \<Rightarrow> string" where
  "trim s = rev (dropWhile isSpace (rev (dropWhile isSpace s)))"

subsection \<open>Data\<close>

text \<open>\<^verbatim>\<open>enum UserRole\<close> and \<^verbatim>\<open>interface IUser\<close> of \<^verbatim>\<open>models/User.ts\<close>.
  Dates are numbers (milliseconds). An absent required string is the empty string: the
  \<^verbatim>\<open>required\<close> validator rejects both.\<close>

datatype UserRole = USER | ADMIN

record Profile =
  firstName :: "string option"
  lastName :: "string option"
  phone :: "string option"
  address :: "string option"
  dateOfBirth :: "nat option"

record IUser =
  uid :: string
  email :: string
  displayName :: "string option"
  photoURL :: "string option"
  role :: UserRole
  isActive :: bool
  profile :: Profile
  createdAt :: nat
  updatedAt :: nat
  lastLoginAt :: "nat option"

text \<open>\<^verbatim>\<open>interface AccessTokenPayload\<close>: what \<^verbatim>\<open>jwt.verify\<close> returns. The cast
  \<^verbatim>\<open>as AccessTokenPayload\<close> checks nothing, so \<open>p_type\<close> is any string.\<close>

record AccessTokenPayload =
  p_uid :: string
  p_email :: string
  p_role :: string
  p_iat :: nat
  p_exp :: nat
  p_type :: string

text \<open>The fields of firebase-admin's \<^verbatim>\<open>DecodedIdToken\<close> that the middleware reads or
  fills in.\<close>

record DecodedIdToken =
  t_uid :: string
  t_email :: "string option"
  t_name :: "string option"
  t_picture :: "string option"
  t_aud :: string
  t_auth_time :: nat
  t_exp :: nat
  t_sign_in_provider :: string
  t_iat :: nat
  t_iss :: string
  t_sub :: string

text \<open>A thrown value: an \<^verbatim>\<open>Error\<close> with its message, or anything else.\<close>

datatype thrown = Error string | NonError

text \<open>The Express request, as far as the middleware uses it.\<close>

record request =
  authorization :: "string option"
  user :: "DecodedIdToken option"
  mongoUser :: "IUser option"

text \<open>
  What a middleware run leaves behind: \<^verbatim>\<open>res.status(s).json({success: false, error, message})\<close>,
  a call of \<^verbatim>\<open>next()\<close> with the request as it then is, or neither (the function
  returned without answering, and the request stays open).
\<close>

datatype outcome = Responded nat string string | Next request | Pending


fun outcome_error :: "outcome \<Rightarrow> string option" where
  "outcome_error (Responded s e m) = Some e"
| "outcome_error (Next r) = None"
| "outcome_error Pending = None"

subsection \<open>Collaborators\<close>

datatype call = JwtVerify string | VerifyIdToken string | FindOne string | Save string


fun isVerifyIdToken :: "call \<Rightarrow> bool" where
  "isVerifyIdToken (VerifyIdToken t) = True"
| "isVerifyIdToken c = False"

fun isStoreCall :: "call \<Rightarrow> bool" where
  "isStoreCall (FindOne u) = True"
| "isStoreCall (Save u) = True"
| "isStoreCall c = False"

text \<open>
  The environment of one request: the two verifiers; the clock, read once by the
  middleware's \<^verbatim>\<open>new Date()\<close> (\<open>now\<close>) and once more by the timestamps hook of
  \<^verbatim>\<open>save\<close> (\<open>stamp\<close>); what the store does when it is not available (\<open>Some e\<close>:
  the call rejects with \<open>e\<close>); and JavaScript's \<^verbatim>\<open>toLowerCase\<close> and \<^verbatim>\<open>trim\<close>
  on the strings that are not ASCII, about which nothing is assumed.
\<close>

record env =
  jwt_verify :: "string \<Rightarrow> thrown + AccessTokenPayload"
  verifyIdToken :: "string \<Rightarrow> thrown + DecodedIdToken"
  now :: nat
  stamp :: nat
  findOne_fault :: "thrown option"
  save_fault :: "thrown option"
  unicode_toLowerCase :: "string \<Rightarrow> string"
  unicode_trim :: "string \<Rightarrow> string"

text \<open>
  The setters of the schema, \<^verbatim>\<open>lowercase: true\<close> on \<^verbatim>\<open>email\<close> and
  \<^verbatim>\<open>trim: true\<close> on \<^verbatim>\<open>displayName\<close>: mongoose applies
  \<^verbatim>\<open>toLowerCase()\<close> and \<^verbatim>\<open>trim()\<close> to the value assigned.
\<close>

definition lowercase_setter :: "env \<Rightarrow> string \<Rightarrow> string" where
  "lowercase_setter e s = (if isASCII s then toLowerCase s else unicode_toLowerCase e s)"

definition trim_setter :: "env \<Rightarrow> string \<Rightarrow> string" where
  "trim_setter e s = (if isASCII s then trim s else unicode_trim e s)"

text \<open>The state across requests: the \<^verbatim>\<open>users\<close> collection and the log of calls.\<close>

record world =
  users :: "IUser list"
  calls :: "call list"

definition log_call :: "call \<Rightarrow> world \<Rightarrow> world" where
  "log_call c w = w\<lparr>calls := calls w @ [c]\<rparr>"

text \<open>\<^verbatim>\<open>User.findOne({ uid, isActive: true })\<close>.\<close>

definition findOne :: "env \<Rightarrow> world \<Rightarrow> string \<Rightarrow> (thrown + IUser option) \<times> world" where
  "findOne e w u =
     (let w1 = log_call (FindOne u) w in
      case findOne_fault e of
        Some err \<Rightarrow> (Inl err, w1)
      | None \<Rightarrow> (Inr (find (\<lambda>a. uid a = u \<and> isActive a) (users w1)), w1))"

text \<open>
  \<^verbatim>\<open>doc.save()\<close>; \<open>isNew\<close> and \<open>modified\<close> are what mongoose keeps in the
  document: whether it was made by \<^verbatim>\<open>new User\<close>, and whether a path of it is marked
  modified. A new document is validated (\<^verbatim>\<open>uid\<close> and \<^verbatim>\<open>email\<close> are
  \<^verbatim>\<open>required\<close>) and inserted, unless the unique index on \<^verbatim>\<open>uid\<close> or the one on
  \<^verbatim>\<open>email\<close> rejects it (MongoDB's E11000); \<^verbatim>\<open>timestamps: true\<close> stamps it. A
  document read from the collection is looked up again (\<^verbatim>\<open>uid\<close>, unique and never
  assigned by the middleware, identifies it) and the save is rejected when it is gone.
  With a modified path the timestamps hook sets \<^verbatim>\<open>updatedAt\<close> and the document is
  written back in place; with none, nothing is stamped and nothing is written.
\<close>

definition save :: "env \<Rightarrow> world \<Rightarrow> bool \<Rightarrow> bool \<Rightarrow> IUser \<Rightarrow> (thrown + IUser) \<times> world" where
  "save e w isNew modified doc =
     (let w1 = log_call (Save (uid doc)) w in
      case save_fault e of
        Some err \<Rightarrow> (Inl err, w1)
      | None \<Rightarrow>
          if isNew then
            if uid doc = [] \<or> email doc = []
            then (Inl (Error ''User validation failed''), w1)
            else if uid doc \<in> set (map uid (users w1))
            then (Inl (Error (''E11000 duplicate key error index: uid_1 dup key: '' @ uid doc)), w1)
            else if email doc \<in> set (map email (users w1))
            then (Inl (Error (''E11000 duplicate key error index: email_1 dup key: '' @ email doc)), w1)
            else
              (let d = doc\<lparr>createdAt := stamp e, updatedAt := stamp e\<rparr>
               in (Inr d, w1\<lparr>users := users w1 @ [d]\<rparr>))
          else if uid doc \<in> set (map uid (users w1)) then
            if modified then
              (let d = doc\<lparr>updatedAt := stamp e\<rparr>
               in (Inr d, w1\<lparr>users := map (\<lambda>a. if uid a = uid d then d else a) (users w1)\<rparr>))
            else (Inr doc, w1)
          else (Inl (Error ''No document found for query on model User''), w1))"

text \<open>
  \<^verbatim>\<open>userSchema.methods.updateLastLogin\<close>:
  \<^verbatim>\<open>this.lastLoginAt = new Date(); return this.save()\<close>. The assignment marks the path
  modified when the new date differs from the one the document holds.
\<close>

definition updateLastLogin :: "env \<Rightarrow> world \<Rightarrow> IUser \<Rightarrow> (thrown + IUser) \<times> world" where
  "updateLastLogin e w doc =
     save e w False (lastLoginAt doc \<noteq> Some (now e)) (doc\<lparr>lastLoginAt := Some (now e)\<rparr>)"

text \<open>
  \<^verbatim>\<open>new User({ uid, email, displayName, photoURL, role: UserRole.USER, isActive: true,
  lastLoginAt: new Date() })\<close> on the verified claims, with the schema's setters
  (\<^verbatim>\<open>lowercase\<close> on the email, \<^verbatim>\<open>trim\<close> on the display name).
\<close>

definition emptyProfile :: Profile where
  "emptyProfile = \<lparr>firstName = None, lastName = None, phone = None, address = None,
                    dateOfBirth = None\<rparr>"

definition new_User :: "env \<Rightarrow> DecodedIdToken \<Rightarrow> IUser" where
  "new_User e dt =
     \<lparr>uid = t_uid dt,
      email = (case t_email dt of None \<Rightarrow> [] | Some a \<Rightarrow> lowercase_setter e a),
      displayName = map_option (trim_setter e) (t_name dt),
      photoURL = t_picture dt,
      role = USER,
      isActive = True,
      profile = emptyProfile,
      createdAt = 0,
      updatedAt = 0,
      lastLoginAt = Some (now e)\<rparr>"

subsection \<open>The middleware\<close>

text \<open>The object \<^verbatim>\<open>mockFirebaseToken\<close> of the local-token branch.\<close>

definition mockFirebaseToken :: "AccessTokenPayload \<Rightarrow> IUser \<Rightarrow> DecodedIdToken" where
  "mockFirebaseToken decoded mu =
     \<lparr>t_uid = p_uid decoded,
      t_email = Some (p_email decoded),
      t_name = displayName mu,
      t_picture = photoURL mu,
      t_aud = [],
      t_auth_time = 0,
      t_exp = p_exp decoded,
      t_sign_in_provider = ''custom'',
      t_iat = p_iat decoded,
      t_iss = [],
      t_sub = p_uid decoded\<rparr>"

text \<open>
  The body of the inner \<^verbatim>\<open>try\<close> of \<^verbatim>\<open>authenticateToken\<close>: \<open>Inl\<close> is a value thrown
  inside it (caught by \<^verbatim>\<open>catch (jwtError)\<close>), \<open>Inr\<close> is how the function ends
  otherwise. When the token verifies and its type is not \<^verbatim>\<open>'access_token'\<close> the
  \<^verbatim>\<open>if\<close> is skipped, the \<^verbatim>\<open>try\<close> ends normally, and so does the function.
\<close>

definition local_try :: "env \<Rightarrow> world \<Rightarrow> request \<Rightarrow> string \<Rightarrow> (thrown + outcome) \<times> world" where
  "local_try e w req token =
     (let w1 = log_call (JwtVerify token) w in
      case jwt_verify e token of
        Inl err \<Rightarrow> (Inl err, w1)
      | Inr decoded \<Rightarrow>
          if p_type decoded = ''access_token'' then
            (case findOne e w1 (p_uid decoded) of
               (Inl err, w2) \<Rightarrow> (Inl err, w2)
             | (Inr None, w2) \<Rightarrow>
                 (Inr (Responded 401 ''USER_NOT_FOUND'' ''User not found or inactive''), w2)
             | (Inr (Some mu), w2) \<Rightarrow>
                 (Inr (Next (req\<lparr>user := Some (mockFirebaseToken decoded mu),
                                  mongoUser := Some mu\<rparr>)), w2))
          else (Inr Pending, w1))"

text \<open>
  Verify the ID token, then find or create the user: the body of the innermost
  \<^verbatim>\<open>try\<close> of \<^verbatim>\<open>authenticateToken\<close>, and, statement for statement, the body of the
  \<^verbatim>\<open>try\<close> of the Express \<^verbatim>\<open>authenticateFirebaseUser\<close>.
\<close>

definition firebase_try :: "env \<Rightarrow> world \<Rightarrow> request \<Rightarrow> string \<Rightarrow> (thrown + outcome) \<times> world" where
  "firebase_try e w req token =
     (let w1 = log_call (VerifyIdToken token) w in
      case verifyIdToken e token of
        Inl err \<Rightarrow> (Inl err, w1)
      | Inr decodedToken \<Rightarrow>
          (case findOne e w1 (t_uid decodedToken) of
             (Inl err, w2) \<Rightarrow> (Inl err, w2)
           | (Inr None, w2) \<Rightarrow>
               (case save e w2 True True (new_User e decodedToken) of
                  (Inl err, w3) \<Rightarrow> (Inl err, w3)
                | (Inr mu, w3) \<Rightarrow>
                    (Inr (Next (req\<lparr>user := Some decodedToken, mongoUser := Some mu\<rparr>)), w3))
           | (Inr (Some found), w2) \<Rightarrow>
               (case updateLastLogin e w2 found of
                  (Inl err, w3) \<Rightarrow> (Inl err, w3)
                | (Inr mu, w3) \<Rightarrow>
                    (Inr (Next (req\<lparr>user := Some decodedToken, mongoUser := Some mu\<rparr>)), w3))))"

text \<open>
  The header checks, the same statements in the three middlewares: the header is missing
  or does not start with \<^verbatim>\<open>'Bearer '\<close>; else the token is
  \<^verbatim>\<open>authHeader.split('Bearer ')[1]\<close>, and it is refused when it is falsy
  (\<^verbatim>\<open>undefined\<close> or the empty string).
\<close>

datatype bearer_result = NoBearer | NoToken | Token string

definition bearer :: "request \<Rightarrow> bearer_result" where
  "bearer req =
     (case authorization req of
        None \<Rightarrow> NoBearer
      | Some authHeader \<Rightarrow>
          if authHeader = [] then NoBearer
          else if startsWith authHeader ''Bearer '' then
            (case nth_opt (split_str authHeader ''Bearer '') 1 of
               None \<Rightarrow> NoToken
             | Some token \<Rightarrow> if token = [] then NoToken else Token token)
          else NoBearer)"

text \<open>
  \<^verbatim>\<open>authenticateToken\<close>. \<open>authenticateToken_body\<close> is the outer \<^verbatim>\<open>try\<close>; what
  it throws the outer \<^verbatim>\<open>catch\<close> answers with \<^verbatim>\<open>AUTHENTICATION_FAILED\<close>.
\<close>

definition authenticateToken_body :: "env \<Rightarrow> world \<Rightarrow> request \<Rightarrow> (thrown + outcome) \<times> world" where
  "authenticateToken_body e w req =
     (case bearer req of
        NoBearer \<Rightarrow>
          (Inr (Responded 401 ''UNAUTHORIZED''
                  ''Authorization header with Bearer token is required''), w)
      | NoToken \<Rightarrow>
          (Inr (Responded 401 ''INVALID_TOKEN'' ''Token is required in Authorization header''), w)
      | Token token \<Rightarrow>
          (case local_try e w req token of
             (Inr out, w1) \<Rightarrow> (Inr out, w1)
           | (Inl jwtError, w1) \<Rightarrow>
               (case firebase_try e w1 req token of
                  (Inr out, w2) \<Rightarrow> (Inr out, w2)
                | (Inl firebaseError, w2) \<Rightarrow>
                    (Inr (Responded 401 ''INVALID_TOKEN'' ''Invalid or expired token''), w2))))"

definition authenticateToken :: "env \<Rightarrow> world \<Rightarrow> request \<Rightarrow> outcome \<times> world" where
  "authenticateToken e w req =
     (case authenticateToken_body e w req of
        (Inr out, w1) \<Rightarrow> (out, w1)
      | (Inl error, w1) \<Rightarrow>
          (Responded 401 ''AUTHENTICATION_FAILED'' ''Failed to authenticate user'', w1))"

text \<open>The \<^verbatim>\<open>catch (error)\<close> block of both variants of \<^verbatim>\<open>authenticateFirebaseUser\<close>.
  The two words it looks for are ASCII, and lower-casing turns no character outside ASCII
  into a part of either, so lower-casing the letters A to Z decides the same for every
  message.\<close>

definition classify :: "thrown \<Rightarrow> outcome" where
  "classify error =
     (case error of
        Error message \<Rightarrow>
          (let errorMessage = toLowerCase message in
           if includes_str errorMessage ''expired''
           then Responded 401 ''TOKEN_EXPIRED'' ''ID token has expired''
           else if includes_str errorMessage ''invalid''
           then Responded 401 ''INVALID_TOKEN'' ''Invalid ID token provided''
           else Responded 401 ''AUTHENTICATION_FAILED'' ''Failed to authenticate user'')
      | NonError \<Rightarrow> Responded 401 ''AUTHENTICATION_FAILED'' ''Failed to authenticate user'')"

text \<open>\<^verbatim>\<open>authenticateFirebaseUser\<close> of the Express API (\<^verbatim>\<open>src/middleware/auth.ts\<close>).\<close>

definition authenticateFirebaseUser :: "env \<Rightarrow> world \<Rightarrow> request \<Rightarrow> outcome \<times> world" where
  "authenticateFirebaseUser e w req =
     (case bearer req of
        NoBearer \<Rightarrow>
          (Responded 401 ''UNAUTHORIZED''
             ''Authorization header with Bearer token is required'', w)
      | NoToken \<Rightarrow>
          (Responded 401 ''INVALID_TOKEN'' ''ID token is required in Authorization header'', w)
      | Token idToken \<Rightarrow>
          (case firebase_try e w req idToken of
             (Inr out, w1) \<Rightarrow> (out, w1)
           | (Inl error, w1) \<Rightarrow> (classify error, w1)))"


text \<open>\<^verbatim>\<open>requireActiveUser\<close>: it reads the request only.\<close>

definition requireActiveUser :: "request \<Rightarrow> outcome" where
  "requireActiveUser req =
     (case mongoUser req of
        None \<Rightarrow> Responded 401 ''UNAUTHORIZED'' ''User authentication required''
      | Some mu \<Rightarrow>
          if isActive mu then Next req
          else Responded 403 ''ACCOUNT_DISABLED'' ''User account is disabled'')"

subsection \<open>Concrete requests, tokens and accounts\<close>

text \<open>A request carrying \<^verbatim>\<open>Authorization: Bearer tok\<close>, the claims and the payload of a
  token for the subject \<^verbatim>\<open>u1\<close>, and a stored account of \<^verbatim>\<open>u1\<close>. Every string
  of these examples is ASCII, so the environment's functions for the other strings are never
  applied; they are set to the ASCII ones.\<close>

definition ex_req :: request where
  "ex_req = \<lparr>authorization = Some ''Bearer tok'', user = None, mongoUser = None\<rparr>"

definition ex_claims :: "string option \<Rightarrow> DecodedIdToken" where
  "ex_claims mail =
     \<lparr>t_uid = ''u1'', t_email = mail, t_name = Some ''New Name'',
      t_picture = Some ''new.png'', t_aud = ''proj'', t_auth_time = 900, t_exp = 5000,
      t_sign_in_provider = ''password'', t_iat = 900, t_iss = ''securetoken'',
      t_sub = ''u1''\<rparr>"

definition ex_payload :: "string \<Rightarrow> AccessTokenPayload" where
  "ex_payload ty =
     \<lparr>p_uid = ''u1'', p_email = ''old@example.com'', p_role = ''user'', p_iat = 900,
      p_exp = 5000, p_type = ty\<rparr>"

definition ex_user :: "bool \<Rightarrow> IUser" where
  "ex_user active =
     \<lparr>uid = ''u1'', email = ''old@example.com'', displayName = Some ''Old Name'',
      photoURL = Some ''old.png'', role = USER, isActive = active, profile = emptyProfile,
      createdAt = 100, updatedAt = 100, lastLoginAt = Some 100\<rparr>"

definition ex_env :: "(thrown + AccessTokenPayload) \<Rightarrow> (thrown + DecodedIdToken) \<Rightarrow> env" where
  "ex_env j f =
     \<lparr>jwt_verify = (\<lambda>t. j), verifyIdToken = (\<lambda>t. f), now = 1000, stamp = 1001,
      findOne_fault = None,
      save_fault = None, unicode_toLowerCase = toLowerCase, unicode_trim = trim\<rparr>"

definition ex_world :: "IUser list \<Rightarrow> world" where
  "ex_world us = \<lparr>users = us, calls = []\<rparr>"

lemmas ex_defs = ex_claims_def ex_payload_def ex_user_def ex_env_def ex_world_def
  emptyProfile_def

lemmas bearer_defs = bearer_def split_str_def nth_opt_def

lemmas middleware_defs = authenticateToken_def authenticateToken_body_def local_try_def
  firebase_try_def findOne_def save_def updateLastLogin_def new_User_def log_call_def Let_def

section \<open>Properties\<close>

subsection \<open>The collaborators\<close>

lemma bearer_ex_req: "bearer ex_req = Token ''tok''"
  by (simp add: ex_req_def bearer_defs)

lemma findOne_found:
  "findOne e w u = (Inr (Some mu), w1) \<Longrightarrow> isActive mu \<and> uid mu = u"
  by (auto simp: findOne_def Let_def find_Some_iff split: option.splits)

lemma save_keeps_flags:
  "save e w isNew modified doc = (Inr mu, w1) \<Longrightarrow> isActive mu = isActive doc \<and> uid mu = uid doc"
  by (auto simp: save_def Let_def split: option.splits if_splits)

lemma local_try_Next:
  "local_try e w req token = (Inr (Next r), w1) \<Longrightarrow> \<exists>mu. mongoUser r = Some mu \<and> isActive mu"
  by (auto simp: local_try_def Let_def dest: findOne_found
      split: sum.splits if_splits prod.splits option.splits)

lemma firebase_try_Next:
  "firebase_try e w req token = (Inr (Next r), w1) \<Longrightarrow> \<exists>mu. mongoUser r = Some mu \<and> isActive mu"
  by (auto simp: firebase_try_def Let_def updateLastLogin_def new_User_def
      dest!: findOne_found save_keeps_flags
      split: sum.splits if_splits prod.splits option.splits)

lemma local_try_error:
  "local_try e w req token = (Inr (Responded s k m), w1) \<Longrightarrow> k = ''USER_NOT_FOUND''"
  by (auto simp: local_try_def Let_def split: sum.splits if_splits prod.splits option.splits)

lemma firebase_try_answers_Next:
  "firebase_try e w req token = (Inr out, w1) \<Longrightarrow> \<exists>r. out = Next r"
  by (auto simp: firebase_try_def Let_def split: sum.splits prod.splits option.splits)

lemma authenticateToken_body_returns: "\<exists>out. fst (authenticateToken_body e w req) = Inr out"
  by (auto simp: authenticateToken_body_def split: bearer_result.splits prod.splits sum.splits)




lemma find_replaced:
  "uid a' = u \<Longrightarrow> isActive a' \<Longrightarrow> \<exists>x \<in> set xs. uid x = u \<Longrightarrow>
   find (\<lambda>x. uid x = u \<and> isActive x) (map (\<lambda>x. if uid x = u then a' else x) xs) = Some a'"
  by (induction xs) auto



subsection \<open>The external path, step by step\<close>

text \<open>The subject has an active account: its last login is set and it is written back.\<close>

lemma external_existing:
  assumes "bearer req = Token token"
    and "jwt_verify e token = Inl jwtError"
    and "verifyIdToken e token = Inr dt"
    and "findOne_fault e = None"
    and "save_fault e = None"
    and "find (\<lambda>a. uid a = t_uid dt \<and> isActive a) (users w) = Some a"
    and "lastLoginAt a \<noteq> Some (now e)"
  shows "authenticateToken e w req =
           (Next (req\<lparr>user := Some dt,
                      mongoUser := Some (a\<lparr>lastLoginAt := Some (now e), updatedAt := stamp e\<rparr>)\<rparr>),
            w\<lparr>users := map (\<lambda>x. if uid x = t_uid dt
                                  then a\<lparr>lastLoginAt := Some (now e), updatedAt := stamp e\<rparr>
                                  else x) (users w),
              calls := calls w @ [JwtVerify token, VerifyIdToken token, FindOne (t_uid dt),
                                  Save (t_uid dt)]\<rparr>)"
proof -
  have u: "uid a = t_uid dt" and "a \<in> set (users w)"
    using assms(6) by (auto simp: find_Some_iff)
  then have m: "t_uid dt \<in> uid ` set (users w)"
    by (metis imageI)
  from u m show ?thesis
    using assms
    by (simp add: middleware_defs)
qed

text \<open>The same, when the account's last login already is the present instant: no path is
  modified, and the collection is left as it is.\<close>

lemma external_existing_unmodified:
  assumes "bearer req = Token token"
    and "jwt_verify e token = Inl jwtError"
    and "verifyIdToken e token = Inr dt"
    and "findOne_fault e = None"
    and "save_fault e = None"
    and "find (\<lambda>a. uid a = t_uid dt \<and> isActive a) (users w) = Some a"
    and "lastLoginAt a = Some (now e)"
  shows "authenticateToken e w req =
           (Next (req\<lparr>user := Some dt, mongoUser := Some a\<rparr>),
            w\<lparr>calls := calls w @ [JwtVerify token, VerifyIdToken token, FindOne (t_uid dt),
                                  Save (t_uid dt)]\<rparr>)"
proof -
  have u: "uid a = t_uid dt" and "a \<in> set (users w)"
    using assms(6) by (auto simp: find_Some_iff)
  then have m: "t_uid dt \<in> uid ` set (users w)"
    by (metis imageI)
  have same: "a\<lparr>lastLoginAt := Some (now e)\<rparr> = a"
    using assms(7) by simp
  show ?thesis
    using assms u m
    by (simp add: middleware_defs same)
qed


subsection \<open>The unit tests of the middleware\<close>

text \<open>The header tests of \<^verbatim>\<open>__tests__/unit/middleware/auth.test.ts\<close> and the two
  classification tests of the legacy verifier, run on the model.\<close>

lemma test_no_header:
  "authenticateToken e w \<lparr>authorization = None, user = None, mongoUser = None\<rparr>
   = (Responded 401 ''UNAUTHORIZED'' ''Authorization header with Bearer token is required'', w)"
  by (simp add: authenticateToken_def authenticateToken_body_def bearer_def)

lemma test_invalid_format:
  "authenticateToken e w
     \<lparr>authorization = Some ''InvalidFormat token123'', user = None, mongoUser = None\<rparr>
   = (Responded 401 ''UNAUTHORIZED'' ''Authorization header with Bearer token is required'', w)"
  by (simp add: authenticateToken_def authenticateToken_body_def bearer_def)

lemma test_empty_token:
  "authenticateToken e w \<lparr>authorization = Some ''Bearer '', user = None, mongoUser = None\<rparr>
   = (Responded 401 ''INVALID_TOKEN'' ''Token is required in Authorization header'', w)"
  by (simp add: authenticateToken_def authenticateToken_body_def bearer_defs)

lemma test_legacy_expired:
  "fst (authenticateFirebaseUser (ex_env j (Inl (Error ''Token has expired''))) w ex_req)
   = Responded 401 ''TOKEN_EXPIRED'' ''ID token has expired''"
proof -
  have "includes_str (toLowerCase ''Token has expired'') ''expired''"
    by code_simp
  then show ?thesis
    by (simp add: authenticateFirebaseUser_def firebase_try_def classify_def bearer_ex_req
        ex_env_def Let_def)
qed

lemma test_legacy_invalid:
  "fst (authenticateFirebaseUser (ex_env j (Inl (Error ''Invalid token provided''))) w ex_req)
   = Responded 401 ''INVALID_TOKEN'' ''Invalid ID token provided''"
proof -
  have "\<not> includes_str (toLowerCase ''Invalid token provided'') ''expired''"
    and "includes_str (toLowerCase ''Invalid token provided'') ''invalid''"
    by code_simp+
  then show ?thesis
    by (simp add: authenticateFirebaseUser_def firebase_try_def classify_def bearer_ex_req
        ex_env_def Let_def)
qed

subsection \<open>A verified token of another kind\<close>

lemma other_token_kind_pending:
  assumes "bearer req = Token token"
    and "jwt_verify e token = Inr decoded"
    and "p_type decoded \<noteq> ''access_token''"
  shows "authenticateToken e w req = (Pending, w\<lparr>calls := calls w @ [JwtVerify token]\<rparr>)"
  using assms
  by (simp add: authenticateToken_def authenticateToken_body_def local_try_def log_call_def)

text \<open>
  C1. A credential that \<^verbatim>\<open>jwt.verify\<close> accepts and whose \<^verbatim>\<open>type\<close> is not
  \<^verbatim>\<open>'access_token'\<close> should be handed to \<^verbatim>\<open>auth.verifyIdToken\<close>. It is not: for the
  header \<^verbatim>\<open>Bearer tok\<close> and a verified payload of type \<^verbatim>\<open>'refresh_token'\<close>,
  \<^verbatim>\<open>authenticateToken\<close> returns having called \<^verbatim>\<open>jwt.verify\<close> only, with no response
  sent and \<^verbatim>\<open>next\<close> not called.
\<close>

theorem other_token_kind_left_pending:
  "authenticateToken (ex_env (Inr (ex_payload ''refresh_token'')) (Inr (ex_claims None)))
     (ex_world [ex_user True]) ex_req
   = (Pending, \<lparr>users = [ex_user True], calls = [JwtVerify ''tok'']\<rparr>)"
  by (simp add: authenticateToken_def authenticateToken_body_def local_try_def log_call_def
      bearer_ex_req ex_env_def ex_payload_def ex_world_def)

subsection \<open>A local token without an active account\<close>

text \<open>
  C2, as the code has it. When the credential verifies as a local access token
  (\<^verbatim>\<open>jwt.verify\<close> returns a payload of type \<^verbatim>\<open>'access_token'\<close>), the store answers
  the lookup, and no account with the payload's \<^verbatim>\<open>uid\<close> is active,
  \<^verbatim>\<open>authenticateToken\<close> answers 401 \<^verbatim>\<open>USER_NOT_FOUND\<close>; the collaborators called are
  \<^verbatim>\<open>jwt.verify\<close> and \<^verbatim>\<open>User.findOne\<close>, never \<^verbatim>\<open>auth.verifyIdToken\<close>.
\<close>

theorem local_token_without_active_account:
  assumes "bearer req = Token token"
    and "jwt_verify e token = Inr decoded"
    and "p_type decoded = ''access_token''"
    and "findOne_fault e = None"
    and "\<forall>a \<in> set (users w). uid a = p_uid decoded \<longrightarrow> \<not> isActive a"
  shows "authenticateToken e w req =
           (Responded 401 ''USER_NOT_FOUND'' ''User not found or inactive'',
            w\<lparr>calls := calls w @ [JwtVerify token, FindOne (p_uid decoded)]\<rparr>)
         \<and> filter isVerifyIdToken (calls (snd (authenticateToken e w req)))
             = filter isVerifyIdToken (calls w)"
proof -
  have "find (\<lambda>a. uid a = p_uid decoded \<and> isActive a) (users w) = None"
    using assms(5) by (auto simp: find_None_iff)
  then have "authenticateToken e w req =
           (Responded 401 ''USER_NOT_FOUND'' ''User not found or inactive'',
            w\<lparr>calls := calls w @ [JwtVerify token, FindOne (p_uid decoded)]\<rparr>)"
    using assms(1-4)
    by (simp add: authenticateToken_def authenticateToken_body_def local_try_def
        findOne_def log_call_def)
  then show ?thesis
    by simp
qed

theorem local_token_without_active_account_witness:
  "authenticateToken (ex_env (Inr (ex_payload ''access_token'')) (Inr (ex_claims None)))
     (ex_world [ex_user False]) ex_req
   = (Responded 401 ''USER_NOT_FOUND'' ''User not found or inactive'',
      \<lparr>users = [ex_user False], calls = [JwtVerify ''tok'', FindOne ''u1'']\<rparr>)"
proof -
  let ?e = "ex_env (Inr (ex_payload ''access_token'')) (Inr (ex_claims None))"
  have h2: "jwt_verify ?e ''tok'' = Inr (ex_payload ''access_token'')"
    by (simp add: ex_env_def)
  have h3: "p_type (ex_payload ''access_token'') = ''access_token''"
    by (simp add: ex_payload_def)
  have h4: "findOne_fault ?e = None"
    by (simp add: ex_env_def)
  have h5: "\<forall>a \<in> set (users (ex_world [ex_user False])).
              uid a = p_uid (ex_payload ''access_token'') \<longrightarrow> \<not> isActive a"
    by (simp add: ex_world_def ex_user_def)
  have u: "p_uid (ex_payload ''access_token'') = ''u1''"
    by (simp add: ex_payload_def)
  show ?thesis
    using local_token_without_active_account [OF bearer_ex_req h2 h3 h4 h5]
    unfolding u by (simp add: ex_world_def)
qed

text \<open>
  The claim as written fails when the lookup itself is rejected: the rejection is caught by
  \<^verbatim>\<open>catch (jwtError)\<close>, the local token is handed to \<^verbatim>\<open>auth.verifyIdToken\<close>, and the
  answer is not \<^verbatim>\<open>USER_NOT_FOUND\<close>.
\<close>

theorem lookup_rejected_falls_through_counterexample:
  "jwt_verify
     ((ex_env (Inr (ex_payload ''access_token'')) (Inl (Error ''Decoding Firebase ID token failed'')))
        \<lparr>findOne_fault := Some (Error ''connection timed out'')\<rparr>) ''tok''
     = Inr (ex_payload ''access_token'')
   \<and> p_type (ex_payload ''access_token'') = ''access_token''
   \<and> find (\<lambda>a. uid a = p_uid (ex_payload ''access_token'') \<and> isActive a)
        (users (ex_world [ex_user False])) = None
   \<and> authenticateToken
     ((ex_env (Inr (ex_payload ''access_token'')) (Inl (Error ''Decoding Firebase ID token failed'')))
        \<lparr>findOne_fault := Some (Error ''connection timed out'')\<rparr>)
     (ex_world [ex_user False]) ex_req
     = (Responded 401 ''INVALID_TOKEN'' ''Invalid or expired token'',
        \<lparr>users = [ex_user False],
         calls = [JwtVerify ''tok'', FindOne ''u1'', VerifyIdToken ''tok'']\<rparr>)"
  by (simp add: middleware_defs bearer_ex_req ex_defs)

subsection \<open>Both verifications fail\<close>

text \<open>
  C3, as the code has it. When \<^verbatim>\<open>jwt.verify\<close> throws and \<^verbatim>\<open>auth.verifyIdToken\<close>
  rejects, \<^verbatim>\<open>authenticateToken\<close> answers 401 \<^verbatim>\<open>INVALID_TOKEN\<close> whatever the
  rejection says, and the store is neither read nor written: the two verifiers are the only
  collaborators called.
\<close>

theorem external_failure_is_invalid_token:
  assumes "bearer req = Token token"
    and "jwt_verify e token = Inl jwtError"
    and "verifyIdToken e token = Inl firebaseError"
  shows "authenticateToken e w req =
           (Responded 401 ''INVALID_TOKEN'' ''Invalid or expired token'',
            w\<lparr>calls := calls w @ [JwtVerify token, VerifyIdToken token]\<rparr>)
         \<and> users (snd (authenticateToken e w req)) = users w
         \<and> filter isStoreCall (calls (snd (authenticateToken e w req)))
             = filter isStoreCall (calls w)"
  using assms
  by (simp add: authenticateToken_def authenticateToken_body_def local_try_def
      firebase_try_def log_call_def)

theorem external_failure_is_invalid_token_witness:
  "authenticateToken (ex_env (Inl (Error ''jwt malformed'')) (Inl (Error ''invalid signature'')))
     (ex_world [ex_user True]) ex_req
   = (Responded 401 ''INVALID_TOKEN'' ''Invalid or expired token'',
      \<lparr>users = [ex_user True], calls = [JwtVerify ''tok'', VerifyIdToken ''tok'']\<rparr>)"
proof -
  let ?e = "ex_env (Inl (Error ''jwt malformed'')) (Inl (Error ''invalid signature''))"
  have h2: "jwt_verify ?e ''tok'' = Inl (Error ''jwt malformed'')"
    by (simp add: ex_env_def)
  have h3: "verifyIdToken ?e ''tok'' = Inl (Error ''invalid signature'')"
    by (simp add: ex_env_def)
  show ?thesis
    using external_failure_is_invalid_token [OF bearer_ex_req h2 h3]
    by (simp add: ex_world_def)
qed

text \<open>
  The claim as written fails: a rejection whose message contains \<^verbatim>\<open>expired\<close> is
  answered with \<^verbatim>\<open>INVALID_TOKEN\<close>, not \<^verbatim>\<open>TOKEN_EXPIRED\<close>.
\<close>

theorem expired_external_token_counterexample:
  "includes_str ''Firebase ID token has expired'' ''expired''
   \<and> outcome_error (fst (authenticateToken
        (ex_env (Inl (Error ''jwt malformed'')) (Inl (Error ''Firebase ID token has expired'')))
        (ex_world [ex_user True]) ex_req)) = Some ''INVALID_TOKEN''
   \<and> outcome_error (fst (authenticateToken
        (ex_env (Inl (Error ''jwt malformed'')) (Inl (Error ''Firebase ID token has expired'')))
        (ex_world [ex_user True]) ex_req)) \<noteq> Some ''TOKEN_EXPIRED''"
  by (simp add: authenticateToken_def authenticateToken_body_def local_try_def
      firebase_try_def log_call_def bearer_ex_req ex_env_def)

subsection \<open>The store fails\<close>

text \<open>
  No run of \<^verbatim>\<open>authenticateToken\<close> answers \<^verbatim>\<open>AUTHENTICATION_FAILED\<close>: whatever is
  thrown inside the inner \<^verbatim>\<open>try\<close> is caught there, so the outer \<^verbatim>\<open>catch\<close> has
  nothing left to catch (the responses and \<^verbatim>\<open>next\<close> themselves are taken not to throw).
\<close>

lemma authentication_failed_unreachable:
  "outcome_error (fst (authenticateToken e w req)) \<noteq> Some ''AUTHENTICATION_FAILED''"
proof -
  obtain x w1 where b: "authenticateToken_body e w req = (x, w1)"
    by (cases "authenticateToken_body e w req")
  then obtain out where x: "x = Inr out"
    using authenticateToken_body_returns [of e w req] by auto
  have "outcome_error out \<noteq> Some ''AUTHENTICATION_FAILED''"
    using b x
    by (cases out)
       (auto simp: authenticateToken_body_def
          dest!: local_try_error firebase_try_answers_Next
          split: bearer_result.splits prod.splits sum.splits)
  then show ?thesis
    using b x by (simp add: authenticateToken_def)
qed

text \<open>
  C4. An error thrown by the store should be answered with \<^verbatim>\<open>AUTHENTICATION_FAILED\<close>.
  It is answered with \<^verbatim>\<open>INVALID_TOKEN\<close>: with \<^verbatim>\<open>jwt.verify\<close> throwing and
  \<^verbatim>\<open>auth.verifyIdToken\<close> accepting the token, a rejection of \<^verbatim>\<open>User.findOne\<close>
  (first run) or of \<^verbatim>\<open>save\<close> (second run) is caught by \<^verbatim>\<open>catch (firebaseError)\<close>,
  and the outer \<^verbatim>\<open>catch\<close> never sees it.
\<close>

theorem store_failure_reported_as_invalid_token:
  "authenticateToken
     ((ex_env (Inl (Error ''jwt malformed'')) (Inr (ex_claims (Some ''new@example.com''))))
        \<lparr>findOne_fault := Some (Error ''connection timed out'')\<rparr>)
     (ex_world [ex_user True]) ex_req
   = (Responded 401 ''INVALID_TOKEN'' ''Invalid or expired token'',
      \<lparr>users = [ex_user True],
       calls = [JwtVerify ''tok'', VerifyIdToken ''tok'', FindOne ''u1'']\<rparr>)
   \<and> authenticateToken
     ((ex_env (Inl (Error ''jwt malformed'')) (Inr (ex_claims (Some ''new@example.com''))))
        \<lparr>save_fault := Some (Error ''connection timed out'')\<rparr>)
     (ex_world []) ex_req
   = (Responded 401 ''INVALID_TOKEN'' ''Invalid or expired token'',
      \<lparr>users = [],
       calls = [JwtVerify ''tok'', VerifyIdToken ''tok'', FindOne ''u1'', Save ''u1'']\<rparr>)"
  by (simp add: middleware_defs bearer_ex_req ex_env_def ex_world_def ex_claims_def)

text \<open>The Express \<^verbatim>\<open>authenticateFirebaseUser\<close>, on the same failure of the store,
  answers \<^verbatim>\<open>AUTHENTICATION_FAILED\<close>.\<close>

lemma legacy_store_failure:
  "fst (authenticateFirebaseUser
     ((ex_env j (Inr (ex_claims (Some ''new@example.com''))))
        \<lparr>findOne_fault := Some (Error ''connection timed out'')\<rparr>)
     (ex_world [ex_user True]) ex_req)
   = Responded 401 ''AUTHENTICATION_FAILED'' ''Failed to authenticate user''"
proof -
  have "\<not> includes_str (toLowerCase ''connection timed out'') ''expired''"
    and "\<not> includes_str (toLowerCase ''connection timed out'') ''invalid''"
    by code_simp+
  then show ?thesis
    by (simp add: authenticateFirebaseUser_def firebase_try_def findOne_def classify_def
        log_call_def bearer_ex_req ex_env_def Let_def)
qed

subsection \<open>External login of a known subject\<close>

text \<open>
  C5, as the code has it. When \<^verbatim>\<open>jwt.verify\<close> throws, \<^verbatim>\<open>auth.verifyIdToken\<close>
  accepts the token, the store answers and the subject has an active account \<open>a\<close>,
  \<^verbatim>\<open>authenticateToken\<close> calls \<^verbatim>\<open>updateLastLogin\<close> only. The account attached to the
  request, which is also the account a later lookup of the subject finds, has its last login
  at the present instant and the stored email, display name and photo URL, whatever the
  fresh claims say. It is \<open>a\<close> itself, and nothing is written, when the last login of
  \<open>a\<close> already was the present instant; otherwise it is \<open>a\<close> with the last login set
  and \<^verbatim>\<open>updatedAt\<close> stamped, written in the place of \<open>a\<close>.
\<close>

theorem external_login_existing_user:
  assumes "bearer req = Token token"
    and "jwt_verify e token = Inl jwtError"
    and "verifyIdToken e token = Inr dt"
    and "findOne_fault e = None"
    and "save_fault e = None"
    and "find (\<lambda>x. uid x = t_uid dt \<and> isActive x) (users w) = Some a"
  shows "(let a' = (if lastLoginAt a = Some (now e) then a
                    else a\<lparr>lastLoginAt := Some (now e), updatedAt := stamp e\<rparr>);
              r = authenticateToken e w req
          in fst r = Next (req\<lparr>user := Some dt, mongoUser := Some a'\<rparr>)
             \<and> users (snd r) = (if lastLoginAt a = Some (now e) then users w
                                else map (\<lambda>x. if uid x = t_uid dt then a' else x) (users w))
             \<and> find (\<lambda>x. uid x = t_uid dt \<and> isActive x) (users (snd r)) = Some a'
             \<and> email a' = email a \<and> displayName a' = displayName a
             \<and> photoURL a' = photoURL a \<and> lastLoginAt a' = Some (now e))"
proof (cases "lastLoginAt a = Some (now e)")
  case True
  have r: "authenticateToken e w req =
             (Next (req\<lparr>user := Some dt, mongoUser := Some a\<rparr>),
              w\<lparr>calls := calls w @ [JwtVerify token, VerifyIdToken token, FindOne (t_uid dt),
                                    Save (t_uid dt)]\<rparr>)"
    using external_existing_unmodified [OF assms True] .
  show ?thesis
    unfolding Let_def r fst_conv snd_conv
    using True assms(6) by simp
next
  case False
  let ?a = "a\<lparr>lastLoginAt := Some (now e), updatedAt := stamp e\<rparr>"
  have ua: "uid ?a = t_uid dt" and act: "isActive ?a" and mem: "\<exists>x \<in> set (users w). uid x = t_uid dt"
    using assms(6) by (auto simp: find_Some_iff)
  have r: "authenticateToken e w req =
             (Next (req\<lparr>user := Some dt, mongoUser := Some ?a\<rparr>),
              w\<lparr>users := map (\<lambda>x. if uid x = t_uid dt then ?a else x) (users w),
                calls := calls w @ [JwtVerify token, VerifyIdToken token, FindOne (t_uid dt),
                                    Save (t_uid dt)]\<rparr>)"
    using external_existing [OF assms False] .
  show ?thesis
    unfolding Let_def r fst_conv snd_conv
    using False find_replaced [OF ua act mem] by simp
qed

theorem external_login_existing_user_witness:
  "(let a' = (ex_user True)\<lparr>lastLoginAt := Some 1000, updatedAt := 1001\<rparr>;
        r = authenticateToken
              (ex_env (Inl (Error ''jwt malformed'')) (Inr (ex_claims (Some ''new@example.com''))))
              (ex_world [ex_user True]) ex_req
    in fst r = Next (ex_req\<lparr>user := Some (ex_claims (Some ''new@example.com'')),
                            mongoUser := Some a'\<rparr>)
       \<and> users (snd r) = [a']
       \<and> email a' = ''old@example.com'' \<and> lastLoginAt a' = Some 1000)"
proof -
  let ?dt = "ex_claims (Some ''new@example.com'')"
  let ?e = "ex_env (Inl (Error ''jwt malformed'')) (Inr ?dt)"
  have h2: "jwt_verify ?e ''tok'' = Inl (Error ''jwt malformed'')"
    by (simp add: ex_env_def)
  have h3: "verifyIdToken ?e ''tok'' = Inr ?dt"
    by (simp add: ex_env_def)
  have h4: "findOne_fault ?e = None" and h5: "save_fault ?e = None"
    by (simp_all add: ex_env_def)
  have h6: "find (\<lambda>x. uid x = t_uid ?dt \<and> isActive x)
              (users (ex_world [ex_user True])) = Some (ex_user True)"
    by (simp add: ex_world_def ex_user_def ex_claims_def)
  have n: "now ?e = 1000" "stamp ?e = 1001"
    by (simp_all add: ex_env_def)
  have l: "lastLoginAt (ex_user True) \<noteq> Some 1000"
    by (simp add: ex_user_def)
  show ?thesis
    using external_login_existing_user [OF bearer_ex_req h2 h3 h4 h5 h6] l
    unfolding n Let_def
    by (simp add: ex_world_def ex_claims_def ex_user_def)
qed

text \<open>
  The claim as written fails: the token carries a new email, name and picture, and the
  stored account keeps the old ones.
\<close>

theorem fresh_claims_not_stored_counterexample:
  "t_email (ex_claims (Some ''new@example.com'')) = Some ''new@example.com''
   \<and> t_name (ex_claims (Some ''new@example.com'')) = Some ''New Name''
   \<and> t_picture (ex_claims (Some ''new@example.com'')) = Some ''new.png''
   \<and> map email (users (snd (authenticateToken
        (ex_env (Inl (Error ''jwt malformed'')) (Inr (ex_claims (Some ''new@example.com''))))
        (ex_world [ex_user True]) ex_req))) = [''old@example.com'']
   \<and> map displayName (users (snd (authenticateToken
        (ex_env (Inl (Error ''jwt malformed'')) (Inr (ex_claims (Some ''new@example.com''))))
        (ex_world [ex_user True]) ex_req))) = [Some ''Old Name'']
   \<and> map photoURL (users (snd (authenticateToken
        (ex_env (Inl (Error ''jwt malformed'')) (Inr (ex_claims (Some ''new@example.com''))))
        (ex_world [ex_user True]) ex_req))) = [Some ''old.png'']"
  by (simp add: middleware_defs bearer_ex_req ex_defs)

subsection \<open>The create is rejected as a duplicate\<close>




subsection \<open>The legacy verifier\<close>

















subsection \<open>The same new external token twice\<close>




subsection \<open>A token that starts with the prefix\<close>

text \<open>
  C9. For every header \<^verbatim>\<open>'Bearer Bearer ' + rest\<close> the element 1 of
  \<^verbatim>\<open>authHeader.split('Bearer ')\<close> is the empty string, although what follows the first
  prefix is not empty; \<^verbatim>\<open>authenticateToken\<close> answers 401 \<^verbatim>\<open>INVALID_TOKEN\<close> and
  leaves the state as it was: no collaborator is called.
\<close>

theorem bearer_prefix_twice_is_empty_token:
  "nth_opt (split_str (''Bearer '' @ ''Bearer '' @ rest) ''Bearer '') 1 = Some []
   \<and> drop (length ''Bearer '') (''Bearer '' @ ''Bearer '' @ rest) \<noteq> []
   \<and> authenticateToken e w (req\<lparr>authorization := Some (''Bearer '' @ ''Bearer '' @ rest)\<rparr>)
       = (Responded 401 ''INVALID_TOKEN'' ''Token is required in Authorization header'', w)"
  by (simp add: authenticateToken_def authenticateToken_body_def bearer_defs)

subsection \<open>The attached account is active\<close>

text \<open>
  C10. Whenever \<^verbatim>\<open>authenticateToken\<close> calls \<^verbatim>\<open>next\<close>, the request carries a
  \<^verbatim>\<open>mongoUser\<close> whose \<^verbatim>\<open>isActive\<close> is true; \<^verbatim>\<open>requireActiveUser\<close> on that request
  calls \<^verbatim>\<open>next\<close> in turn and does not answer \<^verbatim>\<open>ACCOUNT_DISABLED\<close>.
\<close>

theorem attached_identity_is_active:
  assumes "authenticateToken e w req = (Next r, w1)"
  shows "(\<exists>mu. mongoUser r = Some mu \<and> isActive mu)
         \<and> requireActiveUser r = Next r
         \<and> outcome_error (requireActiveUser r) \<noteq> Some ''ACCOUNT_DISABLED''"
proof -
  have "\<exists>mu. mongoUser r = Some mu \<and> isActive mu"
    using assms
    by (auto simp: authenticateToken_def authenticateToken_body_def
        dest: local_try_Next firebase_try_Next
        split: bearer_result.splits sum.splits prod.splits)
  then show ?thesis
    by (auto simp: requireActiveUser_def)
qed

theorem attached_identity_is_active_witness:
  "requireActiveUser
     (ex_req\<lparr>user := Some (mockFirebaseToken (ex_payload ''access_token'') (ex_user True)),
             mongoUser := Some (ex_user True)\<rparr>)
   = Next (ex_req\<lparr>user := Some (mockFirebaseToken (ex_payload ''access_token'') (ex_user True)),
                  mongoUser := Some (ex_user True)\<rparr>)"
proof -
  have h: "authenticateToken
             (ex_env (Inr (ex_payload ''access_token'')) (Inl (Error ''not a Firebase token'')))
             (ex_world [ex_user True]) ex_req
           = (Next (ex_req\<lparr>user := Some (mockFirebaseToken (ex_payload ''access_token'')
                                           (ex_user True)),
                          mongoUser := Some (ex_user True)\<rparr>),
              \<lparr>users = [ex_user True], calls = [JwtVerify ''tok'', FindOne ''u1'']\<rparr>)"
    by (simp add: middleware_defs bearer_ex_req ex_defs)
  show ?thesis
    using attached_identity_is_active [OF h] by simp
qed

end
